theory Spec2Isabelle
  imports Main
begin

section \<open>JavaScript strings\<close>

text \<open>
  A JavaScript string is modelled as a \<open>string\<close>: one \<open>char\<close> per code unit, so the model
  covers the code units below 256. The functions below are the \<open>String.prototype\<close> methods
  that \<open>recorder.js\<close> calls, with the argument types it calls them with.
\<close>

definition nl :: char where
  "nl = CHR 0x0A"

text \<open>The white space and line terminator code units that \<open>trim\<close> strips (those below 256).\<close>

definition isWhiteSpace :: "char \<Rightarrow> bool" where
  "isWhiteSpace c = (c = CHR 0x09 \<or> c = CHR 0x0A \<or> c = CHR 0x0B \<or> c = CHR 0x0C
     \<or> c = CHR 0x0D \<or> c = CHR 0x20 \<or> c = CHR 0xA0)"

definition trim :: "string \<Rightarrow> string" where
  "trim s = rev (dropWhile isWhiteSpace (rev (dropWhile isWhiteSpace s)))"

fun startsWith :: "string \<Rightarrow> string \<Rightarrow> bool" where
  "startsWith s [] = True"
| "startsWith [] (p # ps) = False"
| "startsWith (c # cs) (p # ps) = (c = p \<and> startsWith cs ps)"

definition endsWith :: "string \<Rightarrow> string \<Rightarrow> bool" where
  "endsWith s t = startsWith (rev s) (rev t)"

fun includesStr :: "string \<Rightarrow> string \<Rightarrow> bool" where
  "includesStr [] t = (t = [])"
| "includesStr (c # cs) t = (startsWith (c # cs) t \<or> includesStr cs t)"

text \<open>\<open>s.split('\n')\<close>: the pieces between line feeds; the empty string gives one empty piece.\<close>

fun splitFrom :: "string \<Rightarrow> string \<Rightarrow> string list" where
  "splitFrom cur [] = [rev cur]"
| "splitFrom cur (c # cs) = (if c = nl then rev cur # splitFrom [] cs else splitFrom (c # cur) cs)"

definition split_nl :: "string \<Rightarrow> string list" where
  "split_nl s = splitFrom [] s"

text \<open>\<open>xs.join('\n')\<close>.\<close>

fun join_nl :: "string list \<Rightarrow> string" where
  "join_nl [] = []"
| "join_nl [x] = x"
| "join_nl (x # y # ys) = x @ nl # join_nl (y # ys)"

text \<open>
  \<open>s.replace(pat, '')\<close> with a string pattern: the first occurrence of \<open>pat\<close> is removed,
  wherever it is; a string without the pattern is returned as it is.
\<close>

fun removeFirst :: "string \<Rightarrow> string \<Rightarrow> string" where
  "removeFirst [] pat = []"
| "removeFirst (c # cs) pat =
     (if startsWith (c # cs) pat then drop (length pat) (c # cs) else c # removeFirst cs pat)"

text \<open>Template interpolation of a counter: its decimal digits.\<close>

definition digit :: "nat \<Rightarrow> char" where
  "digit d = ''0123456789'' ! d"

fun decimal :: "nat \<Rightarrow> string" where
  "decimal n = (if n < 10 then [digit n] else decimal (n div 10) @ [digit (n mod 10)])"

declare decimal.simps [simp del]

section \<open>The script transformer: wrapInTestFunction\<close>

text \<open>The marker check of \<open>wrapInTestFunction\<close> (its first \<open>if\<close>).\<close>

definition alreadyWrapped :: "string \<Rightarrow> bool" where
  "alreadyWrapped code = (includesStr code ''test('' \<or> includesStr code ''describe('')"

text \<open>
  The \<open>for\<close> loop over the lines. The arguments are the lines from index \<open>i\<close> on, \<open>i\<close>, and
  the three variables the loop updates; \<open>break\<close> returns them as they are.
\<close>

fun scanLines :: "string list \<Rightarrow> nat \<Rightarrow> string \<Rightarrow> string \<Rightarrow> nat \<Rightarrow> string \<times> string \<times> nat" where
  "scanLines [] i imports setup testStartIndex = (imports, setup, testStartIndex)"
| "scanLines (l # ls) i imports setup testStartIndex =
     (let line = trim l in
      if startsWith line ''import '' \<or> startsWith line ''const '' \<or> startsWith line ''require(''
      then scanLines ls (i + 1) (imports @ l @ [nl]) setup (i + 1)
      else if includesStr line ''test ='' \<or> includesStr line ''browser ='' \<or> includesStr line ''context =''
      then scanLines ls (i + 1) imports (setup @ l @ [nl]) (i + 1)
      else if length line > 0 then (imports, setup, testStartIndex)
      else scanLines ls (i + 1) imports setup testStartIndex)"

definition indentLine :: "string \<Rightarrow> string" where
  "indentLine line = (if trim line \<noteq> [] then ''  '' @ line else line)"

definition wrapInTestFunction :: "string \<Rightarrow> string" where
  "wrapInTestFunction code =
     (if alreadyWrapped code then code
      else
        let lines = split_nl code;
            (imports, setup, testStartIndex) = scanLines lines 0 [] [] 0;
            testCode = join_nl (drop testStartIndex lines)
        in imports @ [nl]
           @ ''const { test, expect } = require('@playwright/test');'' @ [nl]
           @ [nl]
           @ ''test('KushoAI Generated Test', async ({ page }) => {'' @ [nl]
           @ join_nl (map indentLine (split_nl testCode)) @ [nl]
           @ ''});'')"

section \<open>Files, JSON values and the environment\<close>

text \<open>
  The file system is a map from paths to nodes. Paths are taken as resolved: two paths name
  the same file exactly when they are equal. A directory stands for every path that exists
  but can be neither read nor written as a file. Besides, a write raises at every path of
  a given set: the paths below a directory that is missing or may not be written, and the
  files that may not be written; \<open>EACCES\<close> stands for each of these refusals.
\<close>

datatype node = File string | Directory

type_synonym filesystem = "string \<rightharpoonup> node"

datatype fs_error = ENOENT | EISDIR | EACCES

definition existsSync :: "filesystem \<Rightarrow> string \<Rightarrow> bool" where
  "existsSync files p = (case files p of None \<Rightarrow> False | Some n \<Rightarrow> True)"

definition readFileSync :: "filesystem \<Rightarrow> string \<Rightarrow> fs_error + string" where
  "readFileSync files p =
     (case files p of None \<Rightarrow> Inl ENOENT | Some Directory \<Rightarrow> Inl EISDIR | Some (File c) \<Rightarrow> Inr c)"

definition writeFileSync ::
  "string set \<Rightarrow> filesystem \<Rightarrow> string \<Rightarrow> string \<Rightarrow> fs_error + filesystem" where
  "writeFileSync refused files p c =
     (if p \<in> refused then Inl EACCES
      else case files p of Some Directory \<Rightarrow> Inl EISDIR | _ \<Rightarrow> Inr (files(p \<mapsto> File c)))"

text \<open>
  The values \<open>JSON.parse\<close> returns. An object is the list of its own properties. Of a number
  the program observes only whether it is zero, so \<open>JNum\<close> carries an integer.
\<close>

datatype json = JNull | JBool bool | JNum int | JStr string | JArr "json list"
  | JObj "(string \<times> json) list"

text \<open>
  \<open>v.name\<close> for the property names the program reads (\<open>extendedScript\<close>, \<open>script\<close>,
  \<open>email\<close>, \<open>token\<close>): \<open>None\<close> is \<open>undefined\<close>; on \<open>null\<close> the access raises a TypeError,
  which the callers model where they read.
\<close>

fun getProp :: "json \<Rightarrow> string \<Rightarrow> json option" where
  "getProp (JObj kvs) name = map_of kvs name"
| "getProp v name = None"

fun truthy :: "json option \<Rightarrow> bool" where
  "truthy None = False"
| "truthy (Some JNull) = False"
| "truthy (Some (JBool b)) = b"
| "truthy (Some (JNum n)) = (n \<noteq> 0)"
| "truthy (Some (JStr s)) = (s \<noteq> [])"
| "truthy (Some (JArr vs)) = True"
| "truthy (Some (JObj kvs)) = True"

text \<open>
  \<open>a || b\<close>, where \<open>a\<close> may be \<open>undefined\<close> and \<open>b\<close> is a value. The chain
  \<open>a || b || c\<close> is \<open>orElse a (orElse b c)\<close>: the first truthy operand, else the last.
\<close>

definition orElse :: "json option \<Rightarrow> json \<Rightarrow> json" where
  "orElse a b = (case a of None \<Rightarrow> b | Some v \<Rightarrow> if truthy a then v else b)"

text \<open>
  The request of \<open>callExtendAPI\<close>: its body and its two credential headers. \<open>https.request\<close>
  raises for a header without a value and for a header whose value, as a string, has a
  character outside tab, \<open>0x20\<close> to \<open>0x7e\<close> and \<open>0x80\<close> to \<open>0xff\<close>. As a string an array is its
  elements with commas between them, and an object is \<open>[object Object]\<close>.
\<close>

record request =
  postData :: string
  userEmail :: json
  authToken :: json

definition validHeaderChar :: "char \<Rightarrow> bool" where
  "validHeaderChar c =
     (c = CHR 0x09 \<or> (32 \<le> (of_char c :: nat) \<and> (of_char c :: nat) < 127)
      \<or> 128 \<le> (of_char c :: nat))"

fun headerValueOk :: "json \<Rightarrow> bool" where
  "headerValueOk (JStr s) = list_all validHeaderChar s"
| "headerValueOk (JArr vs) = list_all headerValueOk vs"
| "headerValueOk v = True"

datatype http_outcome = Response int string | TransportError string

datatype editor_outcome = LaunchFailed | Closed "int option" filesystem

datatype js_error = ApiStatus int string | Transport string | TypeError | InvalidHeader
  | FsError fs_error

text \<open>
  What the program calls and does not define: the wait analyzer (\<open>./wait-enhancer\<close>, taken
  to return), \<open>path.join\<close>, \<open>JSON.parse\<close> (\<open>None\<close> when it raises), \<open>JSON.stringify\<close> (with its
  indent), the exchange that an accepted request starts, the editor subprocess, and the
  clock (\<open>new Date().toISOString()\<close>).

  An exchange ends with a response, given by its status code and its whole body, or with
  an \<open>error\<close> event of the request.

  An editor either cannot be launched or runs and closes, with its exit code (\<open>None\<close> after
  a signal) and the files as the user left them.
\<close>

record env =
  enhanceCode :: "string \<Rightarrow> string"
  analyzeAndSuggestWaits :: "string \<Rightarrow> string list"
  path_join :: "string \<Rightarrow> string \<Rightarrow> string"
  JSON_parse :: "string \<Rightarrow> json option"
  JSON_stringify :: "nat \<Rightarrow> json \<Rightarrow> string"
  https_request :: "request \<Rightarrow> http_outcome"
  spawn_editor :: "string \<Rightarrow> string \<Rightarrow> filesystem \<Rightarrow> editor_outcome"
  toISOString :: string

section \<open>The recorder\<close>

text \<open>
  What the program lets the outside see, in order: console lines (one constructor per
  message), the calls on the codegen subprocess and the watcher, and the call of the
  observer registered with \<open>onUpdate\<close>. The observer is client code: its call is recorded,
  its own effects are not part of \<open>recorder.js\<close>.
\<close>

datatype effect =
    Suggestions "string list"
  | CodeBlock string
  | Observer string
  | Killed nat
  | WatcherClosed nat
  | NoCodeToSave
  | RecordingCompleted
  | AskFilename
  | TestSaved string
  | OpeningEditor
  | NoEditorFound string
  | EditedSuccessfully
  | EditorExitedWithErrors
  | ErrorReadingCredentials
  | CredentialsRequired
  | AskEmail
  | AskToken
  | CredentialsSaved
  | CouldNotSaveCredentials
  | Extending
  | LoadingStarted
  | LoadingStopped
  | ExtendedSuccessfully string
  | ErrorExtending js_error
  | OriginalPreserved string
  | Uncaught js_error

text \<open>
  The fields of \<open>KushoRecorder\<close> (the subprocess and the watcher as handles,
  \<open>onCodeUpdate\<close> as whether a callback is registered), with the world it acts on: the
  files, the paths at which a write raises, the lines waiting on standard input, and what
  it has let out so far. An operation
  that waits for a line of input which never arrives does not complete: its result is
  \<open>None\<close>. Of \<open>startRecording\<close> the model has the listeners it registers, not the launch
  of the codegen tool.
\<close>

record recorder =
  outputFile :: string
  recordingDir :: string
  credentialsFile :: string
  codegenProcess :: "nat option"
  watcher :: "nat option"
  onCodeUpdate :: bool
  currentCode :: string
  enableWaitEnhancement :: bool
  fs :: filesystem
  unwritable :: "string set"
  stdin :: "string list"
  console :: "effect list"

definition say :: "effect list \<Rightarrow> recorder \<Rightarrow> recorder" where
  "say msgs r = r\<lparr>console := console r @ msgs\<rparr>"

subsection \<open>Watching and transforming\<close>

definition handleCodeUpdate :: "env \<Rightarrow> string \<Rightarrow> recorder \<Rightarrow> recorder" where
  "handleCodeUpdate e code r =
     (let enhanced = (if enableWaitEnhancement r then enhanceCode e code else code);
          suggestions = (if enableWaitEnhancement r then analyzeAndSuggestWaits e code else []);
          shown = (if length suggestions > 0 then [Suggestions suggestions] else []);
          finalCode = wrapInTestFunction enhanced
      in r\<lparr>currentCode := finalCode,
            console := console r @ shown @ [CodeBlock finalCode]
              @ (if onCodeUpdate r then [Observer finalCode] else [])\<rparr>)"

datatype watch_event = Change | Rename

text \<open>
  The listener that \<open>startFileWatcher\<close> passes to \<open>fs.watch\<close>. A read that raises is
  swallowed by its \<open>try\<close>, and the recorder stays as it is.
\<close>

definition fileWatcherListener :: "env \<Rightarrow> watch_event \<Rightarrow> recorder \<Rightarrow> recorder" where
  "fileWatcherListener e eventType r =
     (if eventType = Change then
        (case readFileSync (fs r) (outputFile r) of
           Inl err \<Rightarrow> r
         | Inr newCode \<Rightarrow>
             if newCode \<noteq> currentCode r
             then handleCodeUpdate e newCode (r\<lparr>currentCode := newCode\<rparr>)
             else r)
      else r)"

text \<open>
  One write of the codegen tool to the artifact file, followed by the \<open>change\<close> notification
  for it; and a sequence of such writes, in order.
\<close>

definition artifactWritten :: "env \<Rightarrow> string \<Rightarrow> recorder \<Rightarrow> recorder" where
  "artifactWritten e content r =
     fileWatcherListener e Change (r\<lparr>fs := (fs r)(outputFile r \<mapsto> File content)\<rparr>)"

fun artifactWrites :: "env \<Rightarrow> string list \<Rightarrow> recorder \<Rightarrow> recorder" where
  "artifactWrites e [] r = r"
| "artifactWrites e (c # cs) r = artifactWrites e cs (artifactWritten e c r)"

subsection \<open>Stopping\<close>

definition stopWatching :: "recorder \<Rightarrow> recorder" where
  "stopWatching r =
     (case watcher r of
        Some w \<Rightarrow> say [WatcherClosed w] (r\<lparr>watcher := None\<rparr>)
      | None \<Rightarrow> r)"

text \<open>The result of \<open>stopRecording\<close> is the recorder after it and what it returns or raises.\<close>

definition stopRecording :: "recorder \<Rightarrow> recorder \<times> (fs_error + string)" where
  "stopRecording r =
     (let r1 = (case codegenProcess r of
                  Some p \<Rightarrow> say [Killed p] (r\<lparr>codegenProcess := None\<rparr>)
                | None \<Rightarrow> r);
          r2 = stopWatching r1
      in if existsSync (fs r2) (outputFile r2)
         then (r2, readFileSync (fs r2) (outputFile r2))
         else (r2, Inr (currentCode r2)))"

subsection \<open>The credential store\<close>

definition promptForCredentials :: "env \<Rightarrow> recorder \<Rightarrow> (recorder \<times> json) option" where
  "promptForCredentials e r =
     (case stdin r of
        email # token # rest \<Rightarrow>
          let credentials = JObj [(''email'', JStr email), (''token'', JStr token)];
              r1 = (say [CredentialsRequired, AskEmail, AskToken] r)\<lparr>stdin := rest\<rparr>
          in (case writeFileSync (unwritable r1) (fs r1) (credentialsFile r1)
                      (JSON_stringify e 2 credentials) of
                Inr files \<Rightarrow> Some (say [CredentialsSaved] (r1\<lparr>fs := files\<rparr>), credentials)
              | Inl err \<Rightarrow> Some (say [CouldNotSaveCredentials] r1, credentials))
      | _ \<Rightarrow> None)"

text \<open>
  The \<open>try\<close> block of \<open>getCredentials\<close> returns the parsed file, falls out when the file
  does not exist, or raises (the read, or \<open>JSON.parse\<close>).
\<close>

definition getCredentials :: "env \<Rightarrow> recorder \<Rightarrow> (recorder \<times> json) option" where
  "getCredentials e r =
     (if existsSync (fs r) (credentialsFile r) then
        (case readFileSync (fs r) (credentialsFile r) of
           Inl err \<Rightarrow> promptForCredentials e (say [ErrorReadingCredentials] r)
         | Inr data \<Rightarrow>
             (case JSON_parse e data of
                None \<Rightarrow> promptForCredentials e (say [ErrorReadingCredentials] r)
              | Some credentials \<Rightarrow> Some (r, credentials)))
      else promptForCredentials e r)"

definition updateCredentials :: "env \<Rightarrow> recorder \<Rightarrow> (recorder \<times> json) option" where
  "updateCredentials e r = promptForCredentials e r"

subsection \<open>The extension client\<close>

text \<open>The request that \<open>callExtendAPI\<close> builds from the script and the two header values.\<close>

definition extendRequest :: "env \<Rightarrow> string \<Rightarrow> json \<Rightarrow> json \<Rightarrow> request" where
  "extendRequest e scriptContent email token =
     \<lparr>postData = JSON_stringify e 0 (JObj [(''script'', JStr scriptContent)]),
      userEmail = email,
      authToken = token\<rparr>"

text \<open>
  \<open>callExtendAPI\<close>: \<open>Inl\<close> is the rejection of its promise, \<open>Inr\<close> the value it resolves
  with. Reading \<open>credentials.email\<close> of \<open>null\<close> raises inside the executor, and so does
  \<open>https.request\<close> for a header it does not accept; either rejects, and no request is sent.
\<close>

definition callExtendAPI :: "env \<Rightarrow> string \<Rightarrow> json \<Rightarrow> js_error + json" where
  "callExtendAPI e scriptContent credentials =
     (if credentials = JNull then Inl TypeError
      else
        case (getProp credentials ''email'', getProp credentials ''token'') of
          (Some email, Some token) \<Rightarrow>
            if headerValueOk email \<and> headerValueOk token then
              (case https_request e (extendRequest e scriptContent email token) of
                 TransportError msg \<Rightarrow> Inl (Transport msg)
               | Response statusCode data \<Rightarrow>
                   if statusCode \<ge> 200 \<and> statusCode < 300 then
                     (case JSON_parse e data of
                        None \<Rightarrow> Inr (JStr data)
                      | Some response \<Rightarrow>
                          if response = JNull then Inr (JStr data)
                          else Inr (orElse (getProp response ''extendedScript'')
                                     (orElse (getProp response ''script'') (JStr data))))
                   else Inl (ApiStatus statusCode data))
            else Inl InvalidHeader
        | _ \<Rightarrow> Inl InvalidHeader)"

text \<open>
  \<open>extendScriptWithAPI\<close>. \<open>fs.writeFileSync\<close> takes a string; for any other value it raises
  a TypeError. In the \<open>catch\<close> block the indicator is stopped when \<open>loadingInterval\<close> has
  been set, also when the \<open>try\<close> block has stopped it already.
\<close>

definition extendScriptWithAPI :: "env \<Rightarrow> string \<Rightarrow> recorder \<Rightarrow> recorder option" where
  "extendScriptWithAPI e filePath r =
     (case getCredentials e (say [Extending] r) of
        None \<Rightarrow> None
      | Some (r1, credentials) \<Rightarrow>
          (case readFileSync (fs r1) filePath of
             Inl err \<Rightarrow> Some (say [ErrorExtending (FsError err), OriginalPreserved filePath] r1)
           | Inr currentContent \<Rightarrow>
               (case callExtendAPI e currentContent credentials of
                  Inl err \<Rightarrow>
                    Some (say [LoadingStarted, LoadingStopped, ErrorExtending err,
                               OriginalPreserved filePath] r1)
                | Inr (JStr extendedScript) \<Rightarrow>
                    (case writeFileSync (unwritable r1) (fs r1) filePath extendedScript of
                       Inr files \<Rightarrow>
                         Some (say [LoadingStarted, LoadingStopped, ExtendedSuccessfully filePath]
                                 (r1\<lparr>fs := files\<rparr>))
                     | Inl err \<Rightarrow>
                         Some (say [LoadingStarted, LoadingStopped, LoadingStopped,
                                    ErrorExtending (FsError err), OriginalPreserved filePath] r1))
                | Inr other \<Rightarrow>
                    Some (say [LoadingStarted, LoadingStopped, LoadingStopped,
                               ErrorExtending TypeError, OriginalPreserved filePath] r1))))"

subsection \<open>The editor\<close>

text \<open>
  \<open>tryTerminalEditor\<close> returns at once: past the last candidate it prints its notice;
  otherwise it spawns the candidate at \<open>index\<close> and puts two listeners on it. Its result is
  the recorder and the index of the candidate it has spawned, if any.
\<close>

definition tryTerminalEditor ::
  "string \<Rightarrow> string list \<Rightarrow> nat \<Rightarrow> recorder \<Rightarrow> recorder \<times> nat option" where
  "tryTerminalEditor filePath editors index r =
     (if index \<ge> length editors then (say [NoEditorFound filePath] r, None)
      else (r, Some index))"

text \<open>The \<open>error\<close> listener and the \<open>close\<close> listener of the candidate spawned at \<open>index\<close>.\<close>

definition editorErrorListener ::
  "string \<Rightarrow> string list \<Rightarrow> nat \<Rightarrow> recorder \<Rightarrow> recorder \<times> nat option" where
  "editorErrorListener filePath editors index r = tryTerminalEditor filePath editors (index + 1) r"

definition editorCloseListener :: "env \<Rightarrow> string \<Rightarrow> int option \<Rightarrow> recorder \<Rightarrow> recorder option" where
  "editorCloseListener e filePath code r =
     (if code = Some 0
      then extendScriptWithAPI e filePath (say [EditedSuccessfully] r)
      else Some (say [EditorExitedWithErrors] r))"

text \<open>
  What the runtime delivers for the candidate spawned at \<open>index\<close>, and all that follows.
  For a candidate that cannot be launched it emits \<open>error\<close> and, as soon as that listener has
  returned, \<open>close\<close> with the negative error number as the code (\<open>-2\<close> for a command that is
  not found), before any event of a candidate spawned in between. For a candidate that runs
  it emits \<open>close\<close> with the exit code once the user has left the editor. The index is
  one that \<open>tryTerminalEditor\<close> has spawned, so it is below the length of the list.
\<close>

function editorEvents ::
  "env \<Rightarrow> string \<Rightarrow> string list \<Rightarrow> nat \<Rightarrow> recorder \<Rightarrow> recorder option" where
  "editorEvents e filePath editors index r =
     (case spawn_editor e (editors ! index) filePath (fs r) of
        LaunchFailed \<Rightarrow>
          (case editorErrorListener filePath editors index r of
             (r1, spawned) \<Rightarrow>
               (case editorCloseListener e filePath (Some (- 2)) r1 of
                  None \<Rightarrow> None
                | Some r2 \<Rightarrow>
                    (case spawned of
                       None \<Rightarrow> Some r2
                     | Some next \<Rightarrow> editorEvents e filePath editors next r2)))
      | Closed code files \<Rightarrow> editorCloseListener e filePath code (r\<lparr>fs := files\<rparr>))"
  by pat_completeness auto
termination
  by (relation "measure (\<lambda>(e, filePath, editors, index, r). length editors - index)")
     (auto simp: editorErrorListener_def tryTerminalEditor_def split: if_splits)

declare editorEvents.simps [simp del]

text \<open>\<open>openEditorInTerminal\<close>, followed to the end of what it starts.\<close>

definition openEditorInTerminal :: "env \<Rightarrow> string \<Rightarrow> recorder \<Rightarrow> recorder option" where
  "openEditorInTerminal e filePath r =
     (case tryTerminalEditor filePath [''nano'', ''vim'', ''vi''] 0 (say [OpeningEditor] r) of
        (r1, None) \<Rightarrow> Some r1
      | (r1, Some index) \<Rightarrow> editorEvents e filePath [''nano'', ''vim'', ''vi''] index r1)"

subsection \<open>Saving\<close>

definition saveCodeToFile :: "env \<Rightarrow> string \<Rightarrow> recorder \<Rightarrow> fs_error + recorder \<times> string" where
  "saveCodeToFile e filename r =
     (let fullPath = path_join e (recordingDir r) filename in
      case writeFileSync (unwritable r) (fs r) fullPath (currentCode r) of
        Inl err \<Rightarrow> Inl err
      | Inr files \<Rightarrow> Inr (r\<lparr>fs := files\<rparr>, fullPath))"

text \<open>
  The \<open>while\<close> loop of \<open>saveCodeToUniqueFile\<close>, on its variables \<open>counter\<close> and \<open>fullPath\<close>;
  \<open>None\<close> when it never ends.
\<close>

partial_function (option) uniquePath :: "env \<Rightarrow> recorder \<Rightarrow> string \<Rightarrow> nat \<Rightarrow> string \<Rightarrow> string option"
  where
  "uniquePath e r baseName counter fullPath =
     (if existsSync (fs r) fullPath
      then uniquePath e r baseName (counter + 1)
             (path_join e (recordingDir r) (baseName @ ''-'' @ decimal counter @ ''.js''))
      else Some fullPath)"

definition saveCodeToUniqueFile ::
  "env \<Rightarrow> string \<Rightarrow> recorder \<Rightarrow> (fs_error + recorder \<times> string) option" where
  "saveCodeToUniqueFile e filename r =
     (let baseName = removeFirst filename ''.js'' in
      case uniquePath e r baseName 1 (path_join e (recordingDir r) filename) of
        None \<Rightarrow> None
      | Some fullPath \<Rightarrow>
          (case writeFileSync (unwritable r) (fs r) fullPath (currentCode r) of
             Inl err \<Rightarrow> Some (Inl err)
           | Inr files \<Rightarrow> Some (Inr (r\<lparr>fs := files\<rparr>, fullPath))))"

text \<open>
  \<open>promptForFilename\<close> with the callback of its question: \<open>None\<close> when no line ever
  arrives. An exception of the save is not caught by anyone.
\<close>

definition promptForFilename :: "env \<Rightarrow> recorder \<Rightarrow> recorder option" where
  "promptForFilename e r =
     (if currentCode r = [] \<or> trim (currentCode r) = [] then Some (say [NoCodeToSave] r)
      else
        case stdin r of
          [] \<Rightarrow> None
        | answer # rest \<Rightarrow>
            let r1 = (say [RecordingCompleted, AskFilename] r)\<lparr>stdin := rest\<rparr>;
                named = (if answer = [] \<or> trim answer = []
                         then ''kusho-test-''
                              @ map (\<lambda>c. if c = CHR '':'' \<or> c = CHR ''.'' then CHR ''-'' else c)
                                  (toISOString e)
                         else answer);
                filename = (if endsWith named ''.js'' then named else named @ ''.js'')
            in (case saveCodeToUniqueFile e filename r1 of
                  None \<Rightarrow> None
                | Some (Inl err) \<Rightarrow> Some (say [Uncaught (FsError err)] r1)
                | Some (Inr (r2, finalPath)) \<Rightarrow>
                    openEditorInTerminal e finalPath (say [TestSaved finalPath] r2)))"

text \<open>The \<open>close\<close> listener that \<open>startRecording\<close> puts on the codegen subprocess.\<close>

definition codegenClosed :: "env \<Rightarrow> recorder \<Rightarrow> recorder option" where
  "codegenClosed e r = promptForFilename e (stopWatching r)"

section \<open>Observations\<close>

text \<open>
  A failing extension attempt, in the words of the specification: a response whose status
  is not 2xx, or a transport-level error.
\<close>

fun failedExchange :: "http_outcome \<Rightarrow> bool" where
  "failedExchange (Response statusCode body) = (statusCode < 200 \<or> statusCode \<ge> 300)"
| "failedExchange (TransportError msg) = True"

text \<open>The node at a path once an operation has completed; \<open>None\<close> also when it never does.\<close>

definition fileAfter :: "recorder option \<Rightarrow> string \<Rightarrow> node option" where
  "fileAfter result p = (case result of None \<Rightarrow> None | Some r \<Rightarrow> fs r p)"

section \<open>The editor contract as the specification words it\<close>

text \<open>
  The candidates are tried in order and a candidate that cannot be launched is passed over:
  the result is the number of candidates passed over, with the exit code and the files of
  the first candidate that launches; \<open>None\<close> when none does.
\<close>

fun firstLaunched ::
  "env \<Rightarrow> string \<Rightarrow> filesystem \<Rightarrow> string list \<Rightarrow> (nat \<times> int option \<times> filesystem) option" where
  "firstLaunched e filePath files [] = None"
| "firstLaunched e filePath files (editor # editors) =
     (case spawn_editor e editor filePath files of
        LaunchFailed \<Rightarrow>
          (case firstLaunched e filePath files editors of
             None \<Rightarrow> None
           | Some (passed, code, files') \<Rightarrow> Some (passed + 1, code, files'))
      | Closed code files' \<Rightarrow> Some (0, code, files'))"

section \<open>A sample environment\<close>

text \<open>
  Concrete inputs for the examples. \<open>sampleParse\<close> agrees with \<open>JSON.parse\<close> on the texts
  the examples hand to it. \<open>sampleStringify\<close> is \<open>JSON.stringify\<close> on the values the program
  hands to it, objects whose members are strings: without an indent the members follow each
  other, with an indent each is on a line of its own. The sample analyzer changes every code
  it is given, so that a call of it shows.
\<close>

definition sampleParse :: "string \<Rightarrow> json option" where
  \<open>sampleParse s =
     (if s = ''{"extendedScript": "X"}'' then Some (JObj [(''extendedScript'', JStr ''X'')])
      else if s = ''{"extendedScript": ""}'' then Some (JObj [(''extendedScript'', JStr [])])
      else if s = ''{"email": "a@b.com", "token": "t"}''
        then Some (JObj [(''email'', JStr ''a@b.com''), (''token'', JStr ''t'')])
      else None)\<close>

definition escapeChar :: "char \<Rightarrow> string" where
  "escapeChar c =
     (if c = CHR 0x22 then [CHR 0x5C, CHR 0x22]
      else if c = CHR 0x5C then [CHR 0x5C, CHR 0x5C]
      else if c = CHR 0x08 then [CHR 0x5C, CHR ''b'']
      else if c = CHR 0x09 then [CHR 0x5C, CHR ''t'']
      else if c = CHR 0x0A then [CHR 0x5C, CHR ''n'']
      else if c = CHR 0x0C then [CHR 0x5C, CHR ''f'']
      else if c = CHR 0x0D then [CHR 0x5C, CHR ''r'']
      else if (of_char c :: nat) < 32
      then [CHR 0x5C, CHR ''u'', CHR ''0'', CHR ''0'',
            ''0123456789abcdef'' ! (of_char c div 16), ''0123456789abcdef'' ! (of_char c mod 16)]
      else [c])"

definition quoted :: "string \<Rightarrow> string" where
  "quoted s = CHR 0x22 # concat (map escapeChar s) @ [CHR 0x22]"

fun stringifyMember :: "nat \<Rightarrow> string \<times> json \<Rightarrow> string" where
  "stringifyMember indent (name, JStr s) =
     replicate indent CHR '' '' @ quoted name @ '':'' @ (if indent > 0 then '' '' else [])
       @ quoted s"
| "stringifyMember indent (name, v) = []"

fun joinMembers :: "string \<Rightarrow> string list \<Rightarrow> string" where
  "joinMembers sep [] = []"
| "joinMembers sep [m] = m"
| "joinMembers sep (m # n # ms) = m @ sep @ joinMembers sep (n # ms)"

fun sampleStringify :: "nat \<Rightarrow> json \<Rightarrow> string" where
  "sampleStringify indent (JObj []) = ''{}''"
| "sampleStringify indent (JObj members) =
     (if indent > 0
      then ''{'' @ [nl] @ joinMembers ('','' @ [nl]) (map (stringifyMember indent) members)
           @ [nl] @ ''}''
      else ''{'' @ joinMembers '','' (map (stringifyMember indent) members) @ ''}'')"
| "sampleStringify indent v = []"

definition sampleEnv :: env where
  \<open>sampleEnv =
     \<lparr>enhanceCode = (\<lambda>code. code @ ''// enhanced''),
      analyzeAndSuggestWaits = (\<lambda>code. [''add a wait'']),
      path_join = (\<lambda>dir name. dir @ ''/'' @ name),
      JSON_parse = sampleParse,
      JSON_stringify = sampleStringify,
      https_request = (\<lambda>req. Response 200 ''{"extendedScript": "X"}''),
      spawn_editor = (\<lambda>editor filePath files. LaunchFailed),
      toISOString = ''2025-01-01T00:00:00.000Z''\<rparr>\<close>

text \<open>A recorder as the constructor leaves it, with no file on disk and no input waiting.\<close>

definition sampleRecorder :: recorder where
  "sampleRecorder =
     \<lparr>outputFile = ''recordings/generated-test.js'',
      recordingDir = ''recordings'',
      credentialsFile = ''home/.kusho-credentials'',
      codegenProcess = None,
      watcher = None,
      onCodeUpdate = False,
      currentCode = [],
      enableWaitEnhancement = True,
      fs = Map.empty,
      unwritable = {},
      stdin = [],
      console = []\<rparr>"

text \<open>An endpoint that rejects every request, and one that answers with an empty script.\<close>

definition rejectingEnv :: env where
  "rejectingEnv = sampleEnv\<lparr>https_request := (\<lambda>req. Response 500 ''no'')\<rparr>"

definition emptyScriptEnv :: env where
  \<open>emptyScriptEnv = sampleEnv\<lparr>https_request := (\<lambda>req. Response 200 ''{"extendedScript": ""}'')\<rparr>\<close>

text \<open>
  A machine where \<open>nano\<close> cannot be launched and \<open>vim\<close> can; the user leaves the file as it
  is and \<open>vim\<close> exits with code 1.
\<close>

definition vimExitsOneEnv :: env where
  "vimExitsOneEnv =
     sampleEnv\<lparr>spawn_editor := (\<lambda>editor filePath files.
        if editor = ''vim'' then Closed (Some 1) files else LaunchFailed)\<rparr>"

text \<open>
  Recorders for the extension step: one whose credential file is a directory, with two
  answers waiting; one whose credential file holds text that is not JSON, with two answers
  waiting; and one with a well-formed credential file and a saved test.
\<close>

definition brokenStoreRecorder :: recorder where
  "brokenStoreRecorder =
     sampleRecorder\<lparr>fs := [''home/.kusho-credentials'' \<mapsto> Directory],
                     stdin := [''a@b.com'', ''t'']\<rparr>"

definition storeAsTargetRecorder :: recorder where
  "storeAsTargetRecorder =
     sampleRecorder\<lparr>fs := [''home/.kusho-credentials'' \<mapsto> File ''not json''],
                     stdin := [''a@b.com'', ''t'']\<rparr>"

definition savedTestRecorder :: recorder where
  \<open>savedTestRecorder =
     sampleRecorder\<lparr>fs := [''home/.kusho-credentials'' \<mapsto> File ''{"email": "a@b.com", "token": "t"}'',
                            ''recordings/login.js'' \<mapsto> File ''old'']\<rparr>\<close>

text \<open>The same machine when \<open>vim\<close> exits with code 0.\<close>

definition vimExitsZeroEnv :: env where
  "vimExitsZeroEnv =
     sampleEnv\<lparr>spawn_editor := (\<lambda>editor filePath files.
        if editor = ''vim'' then Closed (Some 0) files else LaunchFailed)\<rparr>"

text \<open>An endpoint that rejects the token \<open>t\<close> and accepts every other.\<close>

definition tokenRejectingEnv :: env where
  \<open>tokenRejectingEnv =
     sampleEnv\<lparr>https_request := (\<lambda>req.
        if authToken req = JStr ''t'' then Response 401 ''denied''
        else Response 200 ''{"extendedScript": "X"}'')\<rparr>\<close>

text \<open>
  Two more recorders with two answers waiting: one without a credential file, and one
  whose credential file holds text that is not JSON and may not be written.
\<close>

definition firstRunRecorder :: recorder where
  "firstRunRecorder = sampleRecorder\<lparr>stdin := [''a@b.com'', ''t'']\<rparr>"

definition readOnlyStoreRecorder :: recorder where
  "readOnlyStoreRecorder =
     sampleRecorder\<lparr>fs := [''home/.kusho-credentials'' \<mapsto> File ''not json''],
                     unwritable := {''home/.kusho-credentials''},
                     stdin := [''a@b.com'', ''t'']\<rparr>"

section \<open>Facts about the string functions\<close>

lemma startsWith_iff: "startsWith s t \<longleftrightarrow> (\<exists>q. s = t @ q)"
  by (induction s t rule: startsWith.induct) auto

lemma includes_iff: "includesStr s t \<longleftrightarrow> (\<exists>p q. s = p @ t @ q)"
proof (induction s)
  case Nil
  show ?case by auto
next
  case (Cons c cs)
  show ?case
  proof
    assume "includesStr (c # cs) t"
    then consider "startsWith (c # cs) t" | "includesStr cs t" by auto
    then show "\<exists>p q. c # cs = p @ t @ q"
    proof cases
      case 1
      then obtain q where "c # cs = t @ q" by (auto simp: startsWith_iff)
      then have "c # cs = [] @ t @ q" by simp
      then show ?thesis by blast
    next
      case 2
      then obtain p q where "cs = p @ t @ q" using Cons.IH by auto
      then have "c # cs = (c # p) @ t @ q" by simp
      then show ?thesis by blast
    qed
  next
    assume "\<exists>p q. c # cs = p @ t @ q"
    then obtain p q where pq: "c # cs = p @ t @ q" by blast
    show "includesStr (c # cs) t"
    proof (cases p)
      case Nil
      with pq have "startsWith (c # cs) t" by (auto simp: startsWith_iff)
      then show ?thesis by simp
    next
      case (Cons a p')
      with pq have "cs = p' @ t @ q" by simp
      then have "includesStr cs t" using Cons.IH by blast
      then show ?thesis by simp
    qed
  qed
qed

lemma includes_middle: "includesStr (p @ t @ q) t"
  unfolding includes_iff by blast

lemma wrapped_has_marker: "alreadyWrapped (wrapInTestFunction code)"
proof (cases "alreadyWrapped code")
  case True
  then show ?thesis by (simp add: wrapInTestFunction_def)
next
  case False
  obtain imps stp k where sc: "scanLines (split_nl code) 0 [] [] 0 = (imps, stp, k)"
    by (cases "scanLines (split_nl code) 0 [] [] 0") auto
  define p where "p = imps @ [nl]
     @ ''const { test, expect } = require('@playwright/test');'' @ [nl] @ [nl]"
  define q where "q = '''KushoAI Generated Test', async ({ page }) => {'' @ [nl]
     @ join_nl (map indentLine (split_nl (join_nl (drop k (split_nl code))))) @ [nl] @ ''});''"
  have "wrapInTestFunction code = p @ ''test('' @ q"
    using False sc by (simp add: wrapInTestFunction_def p_def q_def)
  then have "includesStr (wrapInTestFunction code) ''test(''"
    using includes_middle [of p "''test(''" q] by simp
  then show ?thesis by (simp add: alreadyWrapped_def)
qed

lemma trim_blank: "list_all isWhiteSpace s \<Longrightarrow> trim s = []"
  by (auto simp: trim_def list_all_iff dest: set_dropWhileD)

section \<open>Facts about saving\<close>

lemma uniquePath_fresh:
  assumes "uniquePath e r baseName counter fullPath = Some p"
  shows "\<not> existsSync (fs r) p"
  by (rule uniquePath.raw_induct
        [where P = "\<lambda>e r baseName counter fullPath p. \<not> existsSync (fs r) p", OF _ assms])
     (auto split: if_splits)

text \<open>Whatever the name, the save writes to a path that did not exist.\<close>

lemma save_never_overwrites:
  "saveCodeToUniqueFile e filename r = Some (Inr (r', p)) \<Longrightarrow>
     fs r p = None \<and> r' = r\<lparr>fs := (fs r)(p \<mapsto> File (currentCode r))\<rparr>"
  by (auto simp: saveCodeToUniqueFile_def writeFileSync_def existsSync_def Let_def
      split: option.splits sum.splits node.splits if_splits dest!: uniquePath_fresh)

text \<open>The base name is the name without its extension when the rest of it has no \<open>.js\<close>.\<close>

lemma removeFirst_suffix:
  "\<not> includesStr x ''.js'' \<Longrightarrow> removeFirst (x @ ''.js'') ''.js'' = x"
proof (induction x)
  case Nil
  then show ?case by simp
next
  case (Cons c cs)
  then show ?case by (auto simp: startsWith_iff)
qed

section \<open>Facts about the editor\<close>

lemma close_after_failed_launch:
  "editorCloseListener e filePath (Some (- 2)) r = Some (say [EditorExitedWithErrors] r)"
  by (simp add: editorCloseListener_def)

lemma editorEvents_last:
  "index + 1 = length editors \<Longrightarrow>
   editorEvents e filePath editors index r =
     (case spawn_editor e (editors ! index) filePath (fs r) of
        LaunchFailed \<Rightarrow> Some (say [NoEditorFound filePath, EditorExitedWithErrors] r)
      | Closed code files \<Rightarrow> editorCloseListener e filePath code (r\<lparr>fs := files\<rparr>))"
  by (simp add: editorEvents.simps [of e filePath editors index r] editorErrorListener_def
        tryTerminalEditor_def close_after_failed_launch say_def split: editor_outcome.splits)

lemma editorEvents_more:
  "index + 1 < length editors \<Longrightarrow>
   editorEvents e filePath editors index r =
     (case spawn_editor e (editors ! index) filePath (fs r) of
        LaunchFailed \<Rightarrow>
          editorEvents e filePath editors (index + 1) (say [EditorExitedWithErrors] r)
      | Closed code files \<Rightarrow> editorCloseListener e filePath code (r\<lparr>fs := files\<rparr>))"
  by (simp add: editorEvents.simps [of e filePath editors index r] editorErrorListener_def
        tryTerminalEditor_def close_after_failed_launch split: editor_outcome.splits)

section \<open>Facts about the watcher\<close>

text \<open>
  With enhancement off, a content without a marker that is written twice in a row is
  transformed twice: after the first write the buffer holds the wrapped code, which has a
  marker and so differs from the content.
\<close>

lemma repeated_content_is_transformed_twice:
  assumes "\<not> enableWaitEnhancement r" and "\<not> alreadyWrapped c" and "c \<noteq> currentCode r"
  shows "console (artifactWrites e [c, c] r) =
           console r @ [CodeBlock (wrapInTestFunction c)]
             @ (if onCodeUpdate r then [Observer (wrapInTestFunction c)] else [])
             @ [CodeBlock (wrapInTestFunction c)]
             @ (if onCodeUpdate r then [Observer (wrapInTestFunction c)] else [])"
proof -
  have "alreadyWrapped (wrapInTestFunction c)"
    by (rule wrapped_has_marker)
  with assms(2) have "c \<noteq> wrapInTestFunction c"
    by auto
  with assms(1) assms(3) show ?thesis
    by (simp add: artifactWritten_def fileWatcherListener_def handleCodeUpdate_def
          readFileSync_def Let_def)
qed

section \<open>Facts about the credential store and the extension client\<close>

lemma promptForCredentials_files:
  "promptForCredentials e r = Some (r1, credentials) \<Longrightarrow> p \<noteq> credentialsFile r \<Longrightarrow>
     fs r1 p = fs r p"
  by (auto simp: promptForCredentials_def writeFileSync_def say_def Let_def
      split: list.splits sum.splits option.splits node.splits if_splits)

lemma getCredentials_files:
  "getCredentials e r = Some (r1, credentials) \<Longrightarrow> p \<noteq> credentialsFile r \<Longrightarrow>
     fs r1 p = fs r p"
  using promptForCredentials_files [of e r r1 credentials p]
    promptForCredentials_files [of e "say [ErrorReadingCredentials] r" r1 credentials p]
  by (auto simp: getCredentials_def say_def split: if_splits sum.splits option.splits)

lemma callExtendAPI_rejects:
  assumes "\<And>email token. getProp credentials ''email'' = Some email \<Longrightarrow>
             getProp credentials ''token'' = Some token \<Longrightarrow>
             failedExchange (https_request e (extendRequest e content email token))"
  shows "\<exists>err. callExtendAPI e content credentials = Inl err"
proof (cases "getProp credentials ''email''")
  case None
  then show ?thesis by (simp add: callExtendAPI_def)
next
  case (Some email)
  note em = Some
  show ?thesis
  proof (cases "getProp credentials ''token''")
    case None
    then show ?thesis using em by (simp add: callExtendAPI_def)
  next
    case (Some token)
    have "failedExchange (https_request e (extendRequest e content email token))"
      using assms em Some by blast
    then show ?thesis
      using em Some
      by (cases "https_request e (extendRequest e content email token)")
         (auto simp: callExtendAPI_def)
  qed
qed

lemma callExtendAPI_resolves:
  assumes "getProp credentials ''email'' = Some email"
    and "getProp credentials ''token'' = Some token"
    and "headerValueOk email" and "headerValueOk token"
    and "https_request e (extendRequest e content email token) = Response statusCode data"
    and "200 \<le> statusCode" and "statusCode < 300"
  shows "callExtendAPI e content credentials =
           Inr (case JSON_parse e data of
                  None \<Rightarrow> JStr data
                | Some response \<Rightarrow>
                    orElse (getProp response ''extendedScript'')
                      (orElse (getProp response ''script'') (JStr data)))"
proof -
  have "credentials \<noteq> JNull" using assms(1) by auto
  then show ?thesis
    using assms
    by (cases "JSON_parse e data") (auto simp: callExtendAPI_def orElse_def)
qed

lemma extend_after_credentials:
  assumes "getCredentials e (say [Extending] r) = Some (r1, credentials)"
    and "readFileSync (fs r1) filePath = Inr content"
  shows "extendScriptWithAPI e filePath r =
     (case callExtendAPI e content credentials of
        Inl err \<Rightarrow>
          Some (say [LoadingStarted, LoadingStopped, ErrorExtending err,
                     OriginalPreserved filePath] r1)
      | Inr (JStr script) \<Rightarrow>
          (case writeFileSync (unwritable r1) (fs r1) filePath script of
             Inr files \<Rightarrow>
               Some (say [LoadingStarted, LoadingStopped, ExtendedSuccessfully filePath]
                       (r1\<lparr>fs := files\<rparr>))
           | Inl err \<Rightarrow>
               Some (say [LoadingStarted, LoadingStopped, LoadingStopped,
                          ErrorExtending (FsError err), OriginalPreserved filePath] r1))
      | Inr other \<Rightarrow>
          Some (say [LoadingStarted, LoadingStopped, LoadingStopped,
                     ErrorExtending TypeError, OriginalPreserved filePath] r1))"
  using assms by (simp add: extendScriptWithAPI_def)

section \<open>Claims\<close>

text \<open>
  Claim C3. For every code string \<open>c\<close> that contains neither marker substring \<open>test(\<close> nor
  \<open>describe(\<close>, the output of \<open>wrapInTestFunction\<close> contains a marker, and wrapping that
  output again returns it unchanged: \<open>wrap (wrap c) = wrap c\<close>.
\<close>

theorem wrap_idempotent_once_applied:
  "\<not> (includesStr c ''test('' \<or> includesStr c ''describe('') \<Longrightarrow>
     (includesStr (wrapInTestFunction c) ''test('' \<or> includesStr (wrapInTestFunction c) ''describe('')
     \<and> wrapInTestFunction (wrapInTestFunction c) = wrapInTestFunction c"
  using wrapped_has_marker [of c]
  by (simp add: alreadyWrapped_def wrapInTestFunction_def [of "wrapInTestFunction c"])

theorem wrap_idempotent_once_applied_witness:
  "\<not> (includesStr ''await page.click('#a');'' ''test(''
        \<or> includesStr ''await page.click('#a');'' ''describe('')
   \<and> wrapInTestFunction (wrapInTestFunction ''await page.click('#a');'')
       = wrapInTestFunction ''await page.click('#a');''"
  using wrap_idempotent_once_applied [of "''await page.click('#a');''"]
  by simp

text \<open>
  Claim C7. With wait enhancement disabled, \<open>handleCodeUpdate\<close> on code \<open>c\<close> produces exactly
  \<open>wrapInTestFunction c\<close>: that is the buffered code, the code shown and the code handed to
  the observer, nothing is suggested, and the result is the same for every analyzer, so the
  analyzer is not consulted.
\<close>

theorem enhancement_disabled_is_wrap:
  "\<not> enableWaitEnhancement r \<Longrightarrow>
     handleCodeUpdate e c r =
       r\<lparr>currentCode := wrapInTestFunction c,
         console := console r @ [CodeBlock (wrapInTestFunction c)]
           @ (if onCodeUpdate r then [Observer (wrapInTestFunction c)] else [])\<rparr>
     \<and> handleCodeUpdate e c r = handleCodeUpdate e' c r"
  by (simp add: handleCodeUpdate_def Let_def)

theorem enhancement_disabled_is_wrap_witness:
  "\<not> enableWaitEnhancement (sampleRecorder\<lparr>enableWaitEnhancement := False\<rparr>)
   \<and> currentCode (handleCodeUpdate sampleEnv ''x'' (sampleRecorder\<lparr>enableWaitEnhancement := False\<rparr>))
       = wrapInTestFunction ''x''
   \<and> console (handleCodeUpdate sampleEnv ''x'' (sampleRecorder\<lparr>enableWaitEnhancement := False\<rparr>))
       = [CodeBlock (wrapInTestFunction ''x'')]"
  using enhancement_disabled_is_wrap
          [of "sampleRecorder\<lparr>enableWaitEnhancement := False\<rparr>" sampleEnv "''x''" sampleEnv]
  by (simp add: sampleRecorder_def)

text \<open>
  Claim C10. When the codegen subprocess closes while the buffered code is empty or holds
  only white space, the session ends with the warning alone: the watcher is closed, no line
  of input is consumed (the filename question is not asked), no file is written, and neither
  the editor nor the extension runs, whatever the environment.
\<close>

theorem empty_buffer_ends_session:
  "list_all isWhiteSpace (currentCode r) \<Longrightarrow>
     codegenClosed e r = Some (say [NoCodeToSave] (stopWatching r))
     \<and> fs (say [NoCodeToSave] (stopWatching r)) = fs r
     \<and> stdin (say [NoCodeToSave] (stopWatching r)) = stdin r
     \<and> console (say [NoCodeToSave] (stopWatching r)) =
         console r @ (case watcher r of Some w \<Rightarrow> [WatcherClosed w] | None \<Rightarrow> []) @ [NoCodeToSave]"
  by (cases "watcher r")
     (simp_all add: codegenClosed_def promptForFilename_def stopWatching_def say_def trim_blank)

theorem empty_buffer_ends_session_witness:
  "list_all isWhiteSpace (currentCode (sampleRecorder\<lparr>currentCode := '' '', stdin := [''login'']\<rparr>))
   \<and> codegenClosed sampleEnv (sampleRecorder\<lparr>currentCode := '' '', stdin := [''login'']\<rparr>)
       = Some (sampleRecorder\<lparr>currentCode := '' '', stdin := [''login''],
                               console := [NoCodeToSave]\<rparr>)"
  using empty_buffer_ends_session
          [of "sampleRecorder\<lparr>currentCode := '' '', stdin := [''login'']\<rparr>" sampleEnv]
  by (simp add: sampleRecorder_def isWhiteSpace_def stopWatching_def say_def)

text \<open>
  Claim C6, as amended. \<open>stopRecording\<close> kills the subprocess if there is one, closes the
  watcher if there is one, changes neither the files nor the buffer, and returns the on-disk
  content of the artifact file when that file exists (raising when it cannot be read); it
  returns the buffered code only when the file does not exist. A second call changes nothing
  and has the same result.
\<close>

theorem stopRecording_file_first_idempotent:
  "codegenProcess (fst (stopRecording r)) = None
   \<and> watcher (fst (stopRecording r)) = None
   \<and> console (fst (stopRecording r)) = console r
        @ (case codegenProcess r of Some p \<Rightarrow> [Killed p] | None \<Rightarrow> [])
        @ (case watcher r of Some w \<Rightarrow> [WatcherClosed w] | None \<Rightarrow> [])
   \<and> fs (fst (stopRecording r)) = fs r
   \<and> currentCode (fst (stopRecording r)) = currentCode r
   \<and> snd (stopRecording r) =
        (case fs r (outputFile r) of
           Some (File content) \<Rightarrow> Inr content
         | Some Directory \<Rightarrow> Inl EISDIR
         | None \<Rightarrow> Inr (currentCode r))
   \<and> stopRecording (fst (stopRecording r)) = (fst (stopRecording r), snd (stopRecording r))"
  by (cases "codegenProcess r"; cases "watcher r"; cases "fs r (outputFile r)")
     (auto simp: stopRecording_def stopWatching_def say_def existsSync_def readFileSync_def Let_def
           split: node.splits)

text \<open>
  Claim C6 as stated fails. After one write of \<open>x\<close> to the artifact file the buffer holds the
  transformation of exactly what is on disk, so it is not stale; \<open>stopRecording\<close> returns the
  raw file content all the same, not the buffered code.
\<close>

theorem stopRecording_returns_file_not_buffer:
  "fs (artifactWritten sampleEnv ''x'' sampleRecorder)
      (outputFile (artifactWritten sampleEnv ''x'' sampleRecorder)) = Some (File ''x'')
   \<and> currentCode (artifactWritten sampleEnv ''x'' sampleRecorder)
       = wrapInTestFunction (enhanceCode sampleEnv ''x'')
   \<and> snd (stopRecording (artifactWritten sampleEnv ''x'' sampleRecorder)) = Inr ''x''
   \<and> snd (stopRecording (artifactWritten sampleEnv ''x'' sampleRecorder))
       \<noteq> Inr (currentCode (artifactWritten sampleEnv ''x'' sampleRecorder))"
proof -
  have a: "artifactWritten sampleEnv ''x'' sampleRecorder =
      sampleRecorder\<lparr>fs := [''recordings/generated-test.js'' \<mapsto> File ''x''],
        currentCode := wrapInTestFunction ''x// enhanced'',
        console := [Suggestions [''add a wait''], CodeBlock (wrapInTestFunction ''x// enhanced'')]\<rparr>"
    by (simp add: artifactWritten_def fileWatcherListener_def handleCodeUpdate_def
          readFileSync_def sampleRecorder_def sampleEnv_def Let_def)
  have b: "wrapInTestFunction ''x// enhanced'' \<noteq> ''x''"
    using wrapped_has_marker [of "''x// enhanced''"]
    by (auto simp: alreadyWrapped_def)
  have c: "enhanceCode sampleEnv ''x'' = ''x// enhanced''"
    by (simp add: sampleEnv_def)
  show ?thesis
    unfolding a c using b
    by (simp add: stopRecording_def stopWatching_def existsSync_def readFileSync_def
          sampleRecorder_def)
qed

text \<open>
  Claim C1, at its failing input. With wait enhancement off, the artifact file is written twice
  with the same content \<open>await page.click('#a');\<close>. The listener compares what it reads with
  \<open>currentCode\<close>, which \<open>handleCodeUpdate\<close> has replaced by the wrapped code, so the second,
  identical write is transformed and shown again: two events, not one.
\<close>

theorem identical_write_is_processed_again:
  "console (artifactWrites sampleEnv [''await page.click('#a');'', ''await page.click('#a');'']
             (sampleRecorder\<lparr>enableWaitEnhancement := False\<rparr>))
   = [CodeBlock (wrapInTestFunction ''await page.click('#a');''),
      CodeBlock (wrapInTestFunction ''await page.click('#a');'')]"
proof -
  have b: "''await page.click('#a');'' \<noteq> wrapInTestFunction ''await page.click('#a');''"
    using wrapped_has_marker [of "''await page.click('#a');''"]
    by (auto simp: alreadyWrapped_def)
  show ?thesis
    using b by (simp add: artifactWritten_def fileWatcherListener_def handleCodeUpdate_def
          readFileSync_def sampleRecorder_def Let_def)
qed

text \<open>
  Claim C4, at its failing input. The name \<open>a.jsx.js\<close> is taken. The base name is computed
  by removing the first \<open>.js\<close> of the name, which is the one inside \<open>a.jsx\<close>, so the file is
  saved as \<open>ax.js-1.js\<close> and not as \<open>a.jsx-1.js\<close>.
\<close>

theorem unique_save_strips_first_js:
  "saveCodeToUniqueFile sampleEnv ''a.jsx.js''
     (sampleRecorder\<lparr>currentCode := ''new'', fs := [''recordings/a.jsx.js'' \<mapsto> File ''old'']\<rparr>)
   = Some (Inr (sampleRecorder\<lparr>currentCode := ''new'',
                  fs := [''recordings/a.jsx.js'' \<mapsto> File ''old'',
                         ''recordings/ax.js-1.js'' \<mapsto> File ''new'']\<rparr>,
                ''recordings/ax.js-1.js''))"
  by (simp add: saveCodeToUniqueFile_def uniquePath.simps existsSync_def writeFileSync_def
        sampleRecorder_def sampleEnv_def decimal.simps digit_def)

text \<open>
  Claim C9. \<open>openEditorInTerminal\<close> tries \<open>nano\<close>, \<open>vim\<close> and \<open>vi\<close> in this order and passes
  over a candidate that cannot be launched, with the warning that the \<open>close\<close> listener
  prints for it. When the first candidate that launches exits with code zero, the extension
  step runs on the saved file; when it exits with any other code, or on a signal, the
  pipeline stops after the warning, with no extension; when no candidate launches, it stops
  after the notice, with no extension.
\<close>

theorem editor_fallthrough_then_extend_on_zero:
  "openEditorInTerminal e filePath r =
     (case firstLaunched e filePath (fs r) [''nano'', ''vim'', ''vi''] of
        None \<Rightarrow>
          Some (say [OpeningEditor, EditorExitedWithErrors, EditorExitedWithErrors,
                     NoEditorFound filePath, EditorExitedWithErrors] r)
      | Some (passed, code, files) \<Rightarrow>
          if code = Some 0
          then extendScriptWithAPI e filePath
                 (say (OpeningEditor # replicate passed EditorExitedWithErrors
                         @ [EditedSuccessfully]) (r\<lparr>fs := files\<rparr>))
          else Some (say (OpeningEditor # replicate passed EditorExitedWithErrors
                            @ [EditorExitedWithErrors]) (r\<lparr>fs := files\<rparr>)))"
proof -
  let ?eds = "[''nano'', ''vim'', ''vi'']"
  have o: "openEditorInTerminal e filePath r = editorEvents e filePath ?eds 0 (say [OpeningEditor] r)"
    by (simp add: openEditorInTerminal_def tryTerminalEditor_def)
  have e0: "editorEvents e filePath ?eds 0 p =
     (case spawn_editor e ''nano'' filePath (fs p) of
        LaunchFailed \<Rightarrow> editorEvents e filePath ?eds (Suc 0) (say [EditorExitedWithErrors] p)
      | Closed code files \<Rightarrow> editorCloseListener e filePath code (p\<lparr>fs := files\<rparr>))" for p
    using editorEvents_more [of 0 ?eds e filePath p] by (simp split: editor_outcome.splits)
  have e1: "editorEvents e filePath ?eds (Suc 0) p =
     (case spawn_editor e ''vim'' filePath (fs p) of
        LaunchFailed \<Rightarrow>
          editorEvents e filePath ?eds (Suc (Suc 0)) (say [EditorExitedWithErrors] p)
      | Closed code files \<Rightarrow> editorCloseListener e filePath code (p\<lparr>fs := files\<rparr>))" for p
    using editorEvents_more [of "Suc 0" ?eds e filePath p] by (simp split: editor_outcome.splits)
  have e2: "editorEvents e filePath ?eds (Suc (Suc 0)) p =
     (case spawn_editor e ''vi'' filePath (fs p) of
        LaunchFailed \<Rightarrow> Some (say [NoEditorFound filePath, EditorExitedWithErrors] p)
      | Closed code files \<Rightarrow> editorCloseListener e filePath code (p\<lparr>fs := files\<rparr>))" for p
    using editorEvents_last [of "Suc (Suc 0)" ?eds e filePath p] by (simp split: editor_outcome.splits)
  show ?thesis
    unfolding o e0 e1 e2
    by (simp add: editorCloseListener_def say_def split: editor_outcome.splits)
qed

theorem editor_fallthrough_then_extend_on_zero_witness:
  "openEditorInTerminal vimExitsOneEnv ''recordings/login.js'' sampleRecorder
     = Some (sampleRecorder\<lparr>console := [OpeningEditor, EditorExitedWithErrors,
                                          EditorExitedWithErrors]\<rparr>)
   \<and> openEditorInTerminal sampleEnv ''recordings/login.js'' sampleRecorder
     = Some (sampleRecorder\<lparr>console := [OpeningEditor, EditorExitedWithErrors,
               EditorExitedWithErrors, NoEditorFound ''recordings/login.js'',
               EditorExitedWithErrors]\<rparr>)
   \<and> openEditorInTerminal vimExitsZeroEnv ''recordings/login.js'' savedTestRecorder
     = Some (savedTestRecorder
              \<lparr>fs := (fs savedTestRecorder)(''recordings/login.js'' \<mapsto> File ''X''),
                console := [OpeningEditor, EditorExitedWithErrors, EditedSuccessfully, Extending,
                            LoadingStarted, LoadingStopped,
                            ExtendedSuccessfully ''recordings/login.js'']\<rparr>)"
  using editor_fallthrough_then_extend_on_zero
          [of vimExitsOneEnv "''recordings/login.js''" sampleRecorder]
    editor_fallthrough_then_extend_on_zero [of sampleEnv "''recordings/login.js''" sampleRecorder]
    editor_fallthrough_then_extend_on_zero
      [of vimExitsZeroEnv "''recordings/login.js''" savedTestRecorder]
  by (simp add: vimExitsOneEnv_def vimExitsZeroEnv_def sampleEnv_def sampleRecorder_def
        savedTestRecorder_def say_def extendScriptWithAPI_def getCredentials_def existsSync_def
        readFileSync_def writeFileSync_def sampleParse_def callExtendAPI_def extendRequest_def
        validHeaderChar_def orElse_def)


text \<open>
  Claim C8. \<open>getCredentials\<close> reads and parses the credential file and returns what it holds,
  without a prompt, when that succeeds. When the file is missing, cannot be read, or does
  not parse, it does not fail: it is the interactive prompt (after a warning when the file
  exists). With an email and a token answered, the prompt returns exactly these as the
  credentials, whether its write of the credential file succeeds (the file then holds them)
  or raises (the files stay as they were and the failure is reported).
\<close>

theorem credentials_read_or_prompt:
  "(\<forall>data credentials. readFileSync (fs r) (credentialsFile r) = Inr data
        \<and> JSON_parse e data = Some credentials \<longrightarrow>
      getCredentials e r = Some (r, credentials))
   \<and> (\<not> existsSync (fs r) (credentialsFile r) \<longrightarrow>
        getCredentials e r = promptForCredentials e r)
   \<and> (\<forall>err. existsSync (fs r) (credentialsFile r)
        \<and> readFileSync (fs r) (credentialsFile r) = Inl err \<longrightarrow>
        getCredentials e r = promptForCredentials e (say [ErrorReadingCredentials] r))
   \<and> (\<forall>data. readFileSync (fs r) (credentialsFile r) = Inr data \<and> JSON_parse e data = None \<longrightarrow>
        getCredentials e r = promptForCredentials e (say [ErrorReadingCredentials] r))
   \<and> (\<forall>email token rest. stdin p = email # token # rest \<longrightarrow>
        (\<exists>p'. promptForCredentials e p
                 = Some (p', JObj [(''email'', JStr email), (''token'', JStr token)])
             \<and> stdin p' = rest
             \<and> (case writeFileSync (unwritable p) (fs p) (credentialsFile p)
                       (JSON_stringify e 2 (JObj [(''email'', JStr email), (''token'', JStr token)])) of
                  Inr files \<Rightarrow> fs p' = files \<and> last (console p') = CredentialsSaved
                | Inl err \<Rightarrow> fs p' = fs p \<and> last (console p') = CouldNotSaveCredentials)))"
proof -
  have 1: "getCredentials e r = Some (r, credentials)"
    if "readFileSync (fs r) (credentialsFile r) = Inr data" "JSON_parse e data = Some credentials"
    for data credentials
    using that
    by (auto simp: getCredentials_def existsSync_def readFileSync_def
        split: option.splits node.splits)
  have 2: "\<not> existsSync (fs r) (credentialsFile r) \<Longrightarrow>
        getCredentials e r = promptForCredentials e r"
    by (simp add: getCredentials_def)
  have 3: "getCredentials e r = promptForCredentials e (say [ErrorReadingCredentials] r)"
    if "existsSync (fs r) (credentialsFile r)" "readFileSync (fs r) (credentialsFile r) = Inl err"
    for err
    using that by (simp add: getCredentials_def)
  have 4: "getCredentials e r = promptForCredentials e (say [ErrorReadingCredentials] r)"
    if "readFileSync (fs r) (credentialsFile r) = Inr data" "JSON_parse e data = None" for data
    using that
    by (auto simp: getCredentials_def existsSync_def readFileSync_def
        split: option.splits node.splits)
  have 5: "\<exists>p'. promptForCredentials e p
                 = Some (p', JObj [(''email'', JStr email), (''token'', JStr token)])
             \<and> stdin p' = rest
             \<and> (case writeFileSync (unwritable p) (fs p) (credentialsFile p)
                       (JSON_stringify e 2 (JObj [(''email'', JStr email), (''token'', JStr token)])) of
                  Inr files \<Rightarrow> fs p' = files \<and> last (console p') = CredentialsSaved
                | Inl err \<Rightarrow> fs p' = fs p \<and> last (console p') = CouldNotSaveCredentials)"
    if "stdin p = email # token # rest" for email token rest
    using that
    by (cases "writeFileSync (unwritable p) (fs p) (credentialsFile p)
                 (JSON_stringify e 2 (JObj [(''email'', JStr email), (''token'', JStr token)]))")
       (simp_all add: promptForCredentials_def say_def Let_def)
  show ?thesis
    using 1 2 3 4 5 by blast
qed

theorem credentials_read_or_prompt_witness:
  \<open>readFileSync (fs savedTestRecorder) (credentialsFile savedTestRecorder)
      = Inr ''{"email": "a@b.com", "token": "t"}''
   \<and> getCredentials sampleEnv savedTestRecorder
      = Some (savedTestRecorder, JObj [(''email'', JStr ''a@b.com''), (''token'', JStr ''t'')])
   \<and> readFileSync (fs readOnlyStoreRecorder) (credentialsFile readOnlyStoreRecorder)
      = Inr ''not json''
   \<and> JSON_parse sampleEnv ''not json'' = None
   \<and> stdin readOnlyStoreRecorder = [''a@b.com'', ''t'']
   \<and> getCredentials sampleEnv readOnlyStoreRecorder =
       Some (readOnlyStoreRecorder\<lparr>stdin := [],
               console := [ErrorReadingCredentials, CredentialsRequired, AskEmail, AskToken,
                           CouldNotSaveCredentials]\<rparr>,
             JObj [(''email'', JStr ''a@b.com''), (''token'', JStr ''t'')])
   \<and> existsSync (fs brokenStoreRecorder) (credentialsFile brokenStoreRecorder)
   \<and> readFileSync (fs brokenStoreRecorder) (credentialsFile brokenStoreRecorder) = Inl EISDIR
   \<and> getCredentials sampleEnv brokenStoreRecorder =
       Some (brokenStoreRecorder\<lparr>stdin := [],
               console := [ErrorReadingCredentials, CredentialsRequired, AskEmail, AskToken,
                           CouldNotSaveCredentials]\<rparr>,
             JObj [(''email'', JStr ''a@b.com''), (''token'', JStr ''t'')])
   \<and> \<not> existsSync (fs firstRunRecorder) (credentialsFile firstRunRecorder)
   \<and> getCredentials sampleEnv firstRunRecorder =
       Some (firstRunRecorder
              \<lparr>fs := [''home/.kusho-credentials'' \<mapsto>
                        File (JSON_stringify sampleEnv 2
                               (JObj [(''email'', JStr ''a@b.com''), (''token'', JStr ''t'')]))],
                stdin := [],
                console := [CredentialsRequired, AskEmail, AskToken, CredentialsSaved]\<rparr>,
             JObj [(''email'', JStr ''a@b.com''), (''token'', JStr ''t'')])\<close>
  using credentials_read_or_prompt [of savedTestRecorder sampleEnv savedTestRecorder]
    credentials_read_or_prompt
      [of readOnlyStoreRecorder sampleEnv "say [ErrorReadingCredentials] readOnlyStoreRecorder"]
    credentials_read_or_prompt
      [of brokenStoreRecorder sampleEnv "say [ErrorReadingCredentials] brokenStoreRecorder"]
    credentials_read_or_prompt [of firstRunRecorder sampleEnv firstRunRecorder]
  by (simp add: savedTestRecorder_def readOnlyStoreRecorder_def firstRunRecorder_def
        brokenStoreRecorder_def
        sampleRecorder_def sampleEnv_def sampleParse_def getCredentials_def
        promptForCredentials_def existsSync_def readFileSync_def writeFileSync_def say_def)


text \<open>
  Claim C2, as amended. For every target file other than the credential file, the extension
  step completes as soon as credentials are there, and it either leaves the target as it
  was before the call and reports that the original is preserved, or has written to it the
  string that the extension call resolved with and reports success. When the exchange for
  the request that is made fails (a status that is not 2xx, or a transport error), it is the
  former: the target is left as it was.
\<close>

theorem failed_extension_preserves_file:
  assumes "filePath \<noteq> credentialsFile r"
  shows "(extendScriptWithAPI e filePath r = None
            \<longleftrightarrow> getCredentials e (say [Extending] r) = None)
       \<and> (\<forall>r'. extendScriptWithAPI e filePath r = Some r' \<longrightarrow>
             (fs r' filePath = fs r filePath \<and> last (console r') = OriginalPreserved filePath)
             \<or> (\<exists>r1 credentials content script.
                   getCredentials e (say [Extending] r) = Some (r1, credentials)
                   \<and> readFileSync (fs r1) filePath = Inr content
                   \<and> callExtendAPI e content credentials = Inr (JStr script)
                   \<and> fs r' filePath = Some (File script)
                   \<and> last (console r') = ExtendedSuccessfully filePath))
       \<and> ((\<forall>r1 credentials content email token.
               getCredentials e (say [Extending] r) = Some (r1, credentials)
               \<and> readFileSync (fs r1) filePath = Inr content
               \<and> getProp credentials ''email'' = Some email
               \<and> getProp credentials ''token'' = Some token
               \<longrightarrow> failedExchange (https_request e (extendRequest e content email token)))
            \<longrightarrow> (\<forall>r'. extendScriptWithAPI e filePath r = Some r' \<longrightarrow>
                   fs r' filePath = fs r filePath
                   \<and> last (console r') = OriginalPreserved filePath))"
proof (cases "getCredentials e (say [Extending] r)")
  case None
  then show ?thesis by (simp add: extendScriptWithAPI_def)
next
  case (Some a)
  obtain r1 credentials where a: "a = (r1, credentials)" by (cases a)
  have g: "getCredentials e (say [Extending] r) = Some (r1, credentials)"
    using Some a by simp
  have keep: "fs r1 filePath = fs r filePath"
    using getCredentials_files [of e "say [Extending] r" r1 credentials filePath] g assms
    by (simp add: say_def)
  show ?thesis
  proof (cases "readFileSync (fs r1) filePath")
    case (Inl err)
    then show ?thesis
      using g keep by (simp add: extendScriptWithAPI_def say_def)
  next
    case (Inr content)
    note ext = extend_after_credentials [OF g Inr]
    have first: "extendScriptWithAPI e filePath r \<noteq> None"
      unfolding ext by (simp split: sum.splits json.splits)
    have second: "(fs r' filePath = fs r filePath \<and> last (console r') = OriginalPreserved filePath)
             \<or> (\<exists>r1 credentials content script.
                   getCredentials e (say [Extending] r) = Some (r1, credentials)
                   \<and> readFileSync (fs r1) filePath = Inr content
                   \<and> callExtendAPI e content credentials = Inr (JStr script)
                   \<and> fs r' filePath = Some (File script)
                   \<and> last (console r') = ExtendedSuccessfully filePath)"
      if r': "extendScriptWithAPI e filePath r = Some r'" for r'
    proof (cases "callExtendAPI e content credentials")
      case (Inl err)
      then show ?thesis using r' keep unfolding ext by (auto simp: say_def)
    next
      case (Inr v)
      show ?thesis
      proof (cases "\<exists>script. v = JStr script")
        case False
        then show ?thesis
          using r' keep Inr unfolding ext by (cases v) (auto simp: say_def)
      next
        case True
        then obtain script where v: "v = JStr script" by blast
        show ?thesis
        proof (cases "writeFileSync (unwritable r1) (fs r1) filePath script")
          case (Inl err)
          then show ?thesis
            using r' keep Inr v unfolding ext by (auto simp: say_def)
        next
          case (Inr files)
          then have "files filePath = Some (File script)"
            by (auto simp: writeFileSync_def split: if_splits option.splits node.splits)
          then have "fs r' filePath = Some (File script)
                     \<and> last (console r') = ExtendedSuccessfully filePath"
            using r' \<open>callExtendAPI e content credentials = Inr v\<close> v Inr
            unfolding ext by (auto simp: say_def)
          then show ?thesis
            using g \<open>readFileSync (fs r1) filePath = Inr content\<close>
              \<open>callExtendAPI e content credentials = Inr v\<close> v by blast
        qed
      qed
    qed
    have third: "fs r' filePath = fs r filePath \<and> last (console r') = OriginalPreserved filePath"
      if fails: "\<forall>r1 credentials content email token.
               getCredentials e (say [Extending] r) = Some (r1, credentials)
               \<and> readFileSync (fs r1) filePath = Inr content
               \<and> getProp credentials ''email'' = Some email
               \<and> getProp credentials ''token'' = Some token
               \<longrightarrow> failedExchange (https_request e (extendRequest e content email token))"
        and r': "extendScriptWithAPI e filePath r = Some r'" for r'
    proof -
      have "\<exists>err. callExtendAPI e content credentials = Inl err"
        using fails g Inr by (intro callExtendAPI_rejects) blast
      then show ?thesis
        using r' keep unfolding ext by (auto simp: say_def)
    qed
    have c1: "extendScriptWithAPI e filePath r = None
            \<longleftrightarrow> getCredentials e (say [Extending] r) = None"
      using first g by simp
    have c2: "\<forall>r'. extendScriptWithAPI e filePath r = Some r' \<longrightarrow>
             (fs r' filePath = fs r filePath \<and> last (console r') = OriginalPreserved filePath)
             \<or> (\<exists>r1 credentials content script.
                   getCredentials e (say [Extending] r) = Some (r1, credentials)
                   \<and> readFileSync (fs r1) filePath = Inr content
                   \<and> callExtendAPI e content credentials = Inr (JStr script)
                   \<and> fs r' filePath = Some (File script)
                   \<and> last (console r') = ExtendedSuccessfully filePath)"
      using second by blast
    have c3: "(\<forall>r1 credentials content email token.
               getCredentials e (say [Extending] r) = Some (r1, credentials)
               \<and> readFileSync (fs r1) filePath = Inr content
               \<and> getProp credentials ''email'' = Some email
               \<and> getProp credentials ''token'' = Some token
               \<longrightarrow> failedExchange (https_request e (extendRequest e content email token)))
            \<longrightarrow> (\<forall>r'. extendScriptWithAPI e filePath r = Some r' \<longrightarrow>
                   fs r' filePath = fs r filePath
                   \<and> last (console r') = OriginalPreserved filePath)"
      using third by blast
    show ?thesis
      by (rule conjI [OF c1 conjI [OF c2 c3]])
  qed
qed

theorem failed_extension_preserves_file_witness:
  \<open>''recordings/login.js'' \<noteq> credentialsFile savedTestRecorder
   \<and> https_request tokenRejectingEnv
        (extendRequest tokenRejectingEnv ''old'' (JStr ''a@b.com'') (JStr ''t''))
       = Response 401 ''denied''
   \<and> https_request tokenRejectingEnv
        (extendRequest tokenRejectingEnv ''old'' (JStr ''a@b.com'') (JStr ''u''))
       = Response 200 ''{"extendedScript": "X"}''
   \<and> extendScriptWithAPI tokenRejectingEnv ''recordings/login.js'' savedTestRecorder
       = Some (savedTestRecorder
                \<lparr>console := [Extending, LoadingStarted, LoadingStopped,
                              ErrorExtending (ApiStatus 401 ''denied''),
                              OriginalPreserved ''recordings/login.js'']\<rparr>)
   \<and> fileAfter (extendScriptWithAPI tokenRejectingEnv ''recordings/login.js'' savedTestRecorder)
        ''recordings/login.js'' = Some (File ''old'')\<close>
  using failed_extension_preserves_file
          [of "''recordings/login.js''" savedTestRecorder tokenRejectingEnv]
  by (simp add: savedTestRecorder_def sampleRecorder_def tokenRejectingEnv_def sampleEnv_def
       getCredentials_def existsSync_def readFileSync_def sampleParse_def say_def fileAfter_def
       extendScriptWithAPI_def callExtendAPI_def extendRequest_def validHeaderChar_def)

text \<open>
  Claim C2 as stated fails when the target is the credential file. The file holds text that
  is not JSON, so the credentials are asked for and saved over it; the endpoint then answers
  with status 500, and the file no longer has the content it had before the call.
\<close>

theorem failed_extension_rewrites_credential_file:
  "fs storeAsTargetRecorder ''home/.kusho-credentials'' = Some (File ''not json'')
   \<and> credentialsFile storeAsTargetRecorder = ''home/.kusho-credentials''
   \<and> extendScriptWithAPI rejectingEnv ''home/.kusho-credentials'' storeAsTargetRecorder
       = Some (storeAsTargetRecorder
                \<lparr>fs := [''home/.kusho-credentials''
                           \<mapsto> File (JSON_stringify rejectingEnv 2
                                       (JObj [(''email'', JStr ''a@b.com''), (''token'', JStr ''t'')]))],
                  stdin := [],
                  console := [Extending, ErrorReadingCredentials, CredentialsRequired, AskEmail,
                              AskToken, CredentialsSaved, LoadingStarted, LoadingStopped,
                              ErrorExtending (ApiStatus 500 ''no''),
                              OriginalPreserved ''home/.kusho-credentials'']\<rparr>)
   \<and> fileAfter (extendScriptWithAPI rejectingEnv ''home/.kusho-credentials'' storeAsTargetRecorder)
         ''home/.kusho-credentials''
       \<noteq> fs storeAsTargetRecorder ''home/.kusho-credentials''"
  by (simp add: storeAsTargetRecorder_def sampleRecorder_def rejectingEnv_def sampleEnv_def
       getCredentials_def promptForCredentials_def existsSync_def readFileSync_def writeFileSync_def
       sampleParse_def quoted_def escapeChar_def nl_def say_def fileAfter_def
       extendScriptWithAPI_def callExtendAPI_def extendRequest_def validHeaderChar_def)

text \<open>
  Claim C5, as amended. With credentials whose email and token are accepted as headers, a
  target file that can be read and written, and a 2xx response to the request made, the
  target file ends up with: the raw body when the body does not parse; the \<open>extendedScript\<close>
  field when it is a non-empty string; the \<open>script\<close> field when \<open>extendedScript\<close> is absent or
  falsy and \<open>script\<close> is a non-empty string; the raw body when both fields are absent or
  falsy; and its old content when the first truthy one of the two fields is not a string.
  With the body \<open>{"extendedScript": "X"}\<close> and status 200 the file ends up as \<open>X\<close>.
\<close>

theorem successful_extension_writes_script:
  assumes "getCredentials e (say [Extending] r) = Some (r1, credentials)"
    and "getProp credentials ''email'' = Some email"
    and "getProp credentials ''token'' = Some token"
    and "headerValueOk email" and "headerValueOk token"
    and "fs r1 filePath = Some (File content)" and "filePath \<notin> unwritable r1"
    and "https_request e (extendRequest e content email token) = Response statusCode data"
    and "200 \<le> statusCode" and "statusCode < 300"
  shows "(JSON_parse e data = None \<longrightarrow>
            fileAfter (extendScriptWithAPI e filePath r) filePath = Some (File data))
       \<and> (\<forall>response x. JSON_parse e data = Some response
             \<and> getProp response ''extendedScript'' = Some (JStr x) \<and> x \<noteq> [] \<longrightarrow>
            fileAfter (extendScriptWithAPI e filePath r) filePath = Some (File x))
       \<and> (\<forall>response y. JSON_parse e data = Some response
             \<and> \<not> truthy (getProp response ''extendedScript'')
             \<and> getProp response ''script'' = Some (JStr y) \<and> y \<noteq> [] \<longrightarrow>
            fileAfter (extendScriptWithAPI e filePath r) filePath = Some (File y))
       \<and> (\<forall>response. JSON_parse e data = Some response
             \<and> \<not> truthy (getProp response ''extendedScript'')
             \<and> \<not> truthy (getProp response ''script'') \<longrightarrow>
            fileAfter (extendScriptWithAPI e filePath r) filePath = Some (File data))
       \<and> (\<forall>response v. JSON_parse e data = Some response
             \<and> (truthy (getProp response ''extendedScript'')
                    \<and> getProp response ''extendedScript'' = Some v
                  \<or> \<not> truthy (getProp response ''extendedScript'')
                    \<and> truthy (getProp response ''script'')
                    \<and> getProp response ''script'' = Some v)
             \<and> (\<forall>s. v \<noteq> JStr s) \<longrightarrow>
            fileAfter (extendScriptWithAPI e filePath r) filePath = Some (File content))"
proof -
  have rd: "readFileSync (fs r1) filePath = Inr content"
    using assms(6) by (simp add: readFileSync_def)
  note api = callExtendAPI_resolves [OF assms(2) assms(3) assms(4) assms(5) assms(8) assms(9)
      assms(10)]
  note ext = extend_after_credentials [OF assms(1) rd]
  have wr: "fileAfter (extendScriptWithAPI e filePath r) filePath = Some (File script)"
    if "callExtendAPI e content credentials = Inr (JStr script)" for script
    unfolding ext using that assms(6) assms(7)
    by (simp add: writeFileSync_def fileAfter_def say_def)
  have nw: "fileAfter (extendScriptWithAPI e filePath r) filePath = Some (File content)"
    if "callExtendAPI e content credentials = Inr v" and "\<forall>s. v \<noteq> JStr s" for v
    unfolding ext using that assms(6)
    by (cases v) (simp_all add: fileAfter_def say_def)
  have 1: "JSON_parse e data = None \<Longrightarrow>
      fileAfter (extendScriptWithAPI e filePath r) filePath = Some (File data)"
    using api by (intro wr) simp
  have 2: "JSON_parse e data = Some response \<Longrightarrow>
      getProp response ''extendedScript'' = Some (JStr x) \<Longrightarrow> x \<noteq> [] \<Longrightarrow>
      fileAfter (extendScriptWithAPI e filePath r) filePath = Some (File x)" for response x
    using api by (intro wr) (simp add: orElse_def)
  have 3: "JSON_parse e data = Some response \<Longrightarrow>
      \<not> truthy (getProp response ''extendedScript'') \<Longrightarrow>
      getProp response ''script'' = Some (JStr y) \<Longrightarrow> y \<noteq> [] \<Longrightarrow>
      fileAfter (extendScriptWithAPI e filePath r) filePath = Some (File y)" for response y
    using api by (intro wr) (simp add: orElse_def split: option.splits)
  have 4: "JSON_parse e data = Some response \<Longrightarrow>
      \<not> truthy (getProp response ''extendedScript'') \<Longrightarrow>
      \<not> truthy (getProp response ''script'') \<Longrightarrow>
      fileAfter (extendScriptWithAPI e filePath r) filePath = Some (File data)" for response
    using api by (intro wr) (simp add: orElse_def split: option.splits)
  have 5: "JSON_parse e data = Some response \<Longrightarrow>
      truthy (getProp response ''extendedScript'')
         \<and> getProp response ''extendedScript'' = Some v
       \<or> \<not> truthy (getProp response ''extendedScript'')
         \<and> truthy (getProp response ''script'')
         \<and> getProp response ''script'' = Some v \<Longrightarrow>
      \<forall>s. v \<noteq> JStr s \<Longrightarrow>
      fileAfter (extendScriptWithAPI e filePath r) filePath = Some (File content)" for response v
    using api by (intro nw [of v]) (auto simp: orElse_def split: option.splits)
  show ?thesis
    using 1 2 3 4 5 by blast
qed

theorem successful_extension_writes_script_witness:
  \<open>getCredentials sampleEnv (say [Extending] savedTestRecorder)
     = Some (say [Extending] savedTestRecorder,
             JObj [(''email'', JStr ''a@b.com''), (''token'', JStr ''t'')])
   \<and> fs (say [Extending] savedTestRecorder) ''recordings/login.js'' = Some (File ''old'')
   \<and> https_request sampleEnv (extendRequest sampleEnv ''old'' (JStr ''a@b.com'') (JStr ''t''))
       = Response 200 ''{"extendedScript": "X"}''
   \<and> JSON_parse sampleEnv ''{"extendedScript": "X"}'' = Some (JObj [(''extendedScript'', JStr ''X'')])
   \<and> fileAfter (extendScriptWithAPI sampleEnv ''recordings/login.js'' savedTestRecorder)
        ''recordings/login.js'' = Some (File ''X'')\<close>
proof -
  have g: \<open>getCredentials sampleEnv (say [Extending] savedTestRecorder)
     = Some (say [Extending] savedTestRecorder,
             JObj [(''email'', JStr ''a@b.com''), (''token'', JStr ''t'')])\<close>
    by (simp add: getCredentials_def savedTestRecorder_def sampleRecorder_def sampleEnv_def
          sampleParse_def existsSync_def readFileSync_def say_def)
  have f: "fs (say [Extending] savedTestRecorder) ''recordings/login.js'' = Some (File ''old'')"
    by (simp add: savedTestRecorder_def sampleRecorder_def say_def)
  have u: "''recordings/login.js'' \<notin> unwritable (say [Extending] savedTestRecorder)"
    by (simp add: savedTestRecorder_def sampleRecorder_def say_def)
  have h: \<open>https_request sampleEnv (extendRequest sampleEnv ''old'' (JStr ''a@b.com'') (JStr ''t''))
       = Response 200 ''{"extendedScript": "X"}''\<close>
    by (simp add: sampleEnv_def)
  have p: \<open>JSON_parse sampleEnv ''{"extendedScript": "X"}''
             = Some (JObj [(''extendedScript'', JStr ''X'')])\<close>
    by (simp add: sampleEnv_def sampleParse_def)
  have "fileAfter (extendScriptWithAPI sampleEnv ''recordings/login.js'' savedTestRecorder)
        ''recordings/login.js'' = Some (File ''X'')"
    using successful_extension_writes_script [OF g _ _ _ _ f u h] p by (simp add: validHeaderChar_def)
  with g f h p show ?thesis by blast
qed

text \<open>
  Claim C5 as stated fails for a field that is present and empty. The body
  \<open>{"extendedScript": ""}\<close> has the field, with the empty string as its value; the file ends
  up with the raw body, not with the empty string.
\<close>

theorem present_but_empty_field_is_skipped:
  \<open>JSON_parse emptyScriptEnv ''{"extendedScript": ""}'' = Some (JObj [(''extendedScript'', JStr [])])
   \<and> getProp (JObj [(''extendedScript'', JStr [])]) ''extendedScript'' = Some (JStr [])
   \<and> fileAfter (extendScriptWithAPI emptyScriptEnv ''recordings/login.js'' savedTestRecorder)
        ''recordings/login.js'' = Some (File ''{"extendedScript": ""}'')
   \<and> fileAfter (extendScriptWithAPI emptyScriptEnv ''recordings/login.js'' savedTestRecorder)
        ''recordings/login.js'' \<noteq> Some (File [])\<close>
  by (simp add: savedTestRecorder_def sampleRecorder_def emptyScriptEnv_def sampleEnv_def
       getCredentials_def existsSync_def readFileSync_def writeFileSync_def
       sampleParse_def say_def fileAfter_def orElse_def
       extendScriptWithAPI_def callExtendAPI_def extendRequest_def validHeaderChar_def)

end
